theory Spec2Isabelle
  imports Main
begin

section \<open>Python values the code handles\<close>

text \<open>
  An exception instance, as far as the code looks at it: the attributes \<open>__module__\<close>,
  \<open>__name__\<close> and \<open>__qualname__\<close> of its class (\<open>str(e.__class__)\<close> is built from the
  module and the qualified name, the log record of the rollback from \<open>__name__\<close>; the two
  names differ for a nested class), whether it is an instance of \<open>Exception\<close> (what an
  \<open>except Exception\<close> clause catches; \<open>asyncio.CancelledError\<close>, \<open>KeyboardInterrupt\<close>
  and \<open>SystemExit\<close> derive from \<open>BaseException\<close> only), and \<open>str(e)\<close>.
\<close>

datatype pyexc =
  PyExc (cls_module: string) (cls_name: string) (cls_qualname: string) (is_Exception: bool)
    (exc_str: string)

datatype 'a result = Return 'a | Raise pyexc

text \<open>\<open>str(e.__class__)\<close>: classes of \<open>builtins\<close> print without their module.\<close>

definition class_str :: "pyexc \<Rightarrow> string" where
  "class_str e =
     ''<class '' @ [CHR 0x27] @
     (if cls_module e = ''builtins'' then cls_qualname e else cls_module e @ ''.'' @ cls_qualname e)
     @ [CHR 0x27] @ ''>''"

fun startswith :: "string \<Rightarrow> string \<Rightarrow> bool" where
  "startswith s [] = True"
| "startswith [] (p # ps) = False"
| "startswith (c # cs) (p # ps) = (c = p \<and> startswith cs ps)"

text \<open>The substring test \<open>p in s\<close> on strings.\<close>

fun str_in :: "string \<Rightarrow> string \<Rightarrow> bool" where
  "str_in p [] = (p = [])"
| "str_in p (c # cs) = (startswith (c # cs) p \<or> str_in p cs)"

text \<open>The exceptions the code raises itself, and the cancellation signal of asyncio.\<close>

definition RuntimeError :: "string \<Rightarrow> pyexc" where
  "RuntimeError m = PyExc ''builtins'' ''RuntimeError'' ''RuntimeError'' True m"

definition AttributeError :: "string \<Rightarrow> pyexc" where
  "AttributeError m = PyExc ''builtins'' ''AttributeError'' ''AttributeError'' True m"

definition CancelledError :: "string \<Rightarrow> pyexc" where
  "CancelledError m = PyExc ''asyncio.exceptions'' ''CancelledError'' ''CancelledError'' False m"

section \<open>What the run leaves behind\<close>

datatype level = DEBUG | INFO | ERROR

datatype op = Commit | Rollback | Close

text \<open>
  A call of a session method is recorded with its outcome (\<open>None\<close>: it returned,
  \<open>Some e\<close>: it raised \<open>e\<close>); so are the construction of the engine, the connection
  check, the disposal of the engine, every log record and the blocking sleep.
\<close>

datatype event =
    Call op "pyexc option"
  | Log level string
  | CreateAsyncEngine "pyexc option"
  | ConnectionCheck "pyexc option"
  | Dispose "pyexc option"
  | Sleep nat

section \<open>\<open>SQLModelAdapter\<close>\<close>

datatype engine = AsyncEngine (url: string) (app_name: string)

datatype session = AsyncSession (bind: engine)

record adapter =
  database_url :: string
  application_name :: string
  engine :: "engine option"

text \<open>
  \<open>__init__\<close>; the port arrives already printed in decimal.
\<close>

definition SQLModelAdapter ::
  "string \<Rightarrow> string \<Rightarrow> string \<Rightarrow> string \<Rightarrow> string \<Rightarrow> string \<Rightarrow> adapter" where
  "SQLModelAdapter database_host database_port database_user database_password database_name app =
     \<lparr> database_url =
         ''postgresql+asyncpg://'' @ database_user @ '':'' @ database_password @ ''@'' @
         database_host @ '':'' @ database_port @ ''/'' @ database_name,
       application_name = app,
       engine = None \<rparr>"

text \<open>
  What the database client answers during one call of \<open>create_engine\<close>: the outcome of
  \<open>create_async_engine\<close> and the outcome of the connection check (connect, \<open>SELECT 1\<close>,
  release).
\<close>

record create_env =
  construct_res :: "pyexc option"
  check_res :: "pyexc option"

definition create_engine :: "adapter \<Rightarrow> create_env \<Rightarrow> event list \<times> adapter \<times> unit result" where
  "create_engine a env =
     (case engine a of
        Some eng \<Rightarrow> ([], a, Return ())
      | None \<Rightarrow>
          (case construct_res env of
             Some e \<Rightarrow> ([CreateAsyncEngine (Some e)], a, Raise e)
           | None \<Rightarrow>
               (case check_res env of
                  None \<Rightarrow>
                    ([CreateAsyncEngine None, ConnectionCheck None],
                     a\<lparr>engine := Some (AsyncEngine (database_url a) (application_name a))\<rparr>,
                     Return ())
                | Some e \<Rightarrow>
                    ([CreateAsyncEngine None, ConnectionCheck (Some e)],
                     a\<lparr>engine := Some (AsyncEngine (database_url a) (application_name a))\<rparr>,
                     Raise e))))"

definition dispose_engine :: "adapter \<Rightarrow> pyexc option \<Rightarrow> event list \<times> adapter \<times> unit result" where
  "dispose_engine a dispose_res =
     (case engine a of
        None \<Rightarrow> ([], a, Return ())
      | Some eng \<Rightarrow>
          (case dispose_res of
             None \<Rightarrow> ([Dispose None], a\<lparr>engine := None\<rparr>, Return ())
           | Some e \<Rightarrow> ([Dispose (Some e)], a, Raise e)))"

definition get_session :: "adapter \<Rightarrow> session result" where
  "get_session a =
     (case engine a of
        None \<Rightarrow> Raise (RuntimeError ''Engine not initialized. Call create_engine() first'')
      | Some eng \<Rightarrow> Return (AsyncSession eng))"

section \<open>\<open>UoW\<close>\<close>

text \<open>
  The private attribute \<open>__sql_model_session\<close>: \<open>__init__\<close> does not assign it, so it
  is unset until \<open>__aenter__\<close> has assigned it; reading an unset attribute raises
  \<open>AttributeError\<close>.
\<close>

datatype attr = Unset | PyNone | Sess session

record uow =
  sql_model_session :: attr

definition UoW :: uow where
  "UoW = \<lparr> sql_model_session = Unset \<rparr>"

text \<open>
  \<open>__aenter__\<close>, on the current state \<open>a\<close> of the adapter the instance refers to.
\<close>

definition aenter :: "adapter \<Rightarrow> uow \<Rightarrow> event list \<times> uow \<times> unit result" where
  "aenter a u =
     (case get_session a of
        Raise e \<Rightarrow> ([Log DEBUG ''UoW __aenter__: Creating new session''], u, Raise e)
      | Return s \<Rightarrow>
          ([Log DEBUG ''UoW __aenter__: Creating new session'',
            Log DEBUG ''UoW __aenter__: Session created''],
           u\<lparr>sql_model_session := Sess s\<rparr>, Return ()))"

text \<open>
  What the session answers during one call of \<open>__aexit__\<close>; each of the three methods is
  called at most once there.
\<close>

record session_env =
  commit_res :: "pyexc option"
  rollback_res :: "pyexc option"
  close_res :: "pyexc option"

text \<open>Lines 30 to 39: commit, and roll back when the commit raised an \<open>Exception\<close>.\<close>

definition commit_block :: "session_env \<Rightarrow> event list \<times> unit result" where
  "commit_block db =
     (case commit_res db of
        None \<Rightarrow>
          ([Call Commit None, Log DEBUG ''UoW __aexit__: Session committed successfully''],
           Return ())
      | Some e \<Rightarrow>
          if is_Exception e then
            (case rollback_res db of
               None \<Rightarrow>
                 ([Call Commit (Some e), Log ERROR (''Error committing session: '' @ exc_str e),
                   Call Rollback None,
                   Log DEBUG ''UoW __aexit__: Session rolled back after commit error''],
                  Raise e)
             | Some e2 \<Rightarrow>
                 ([Call Commit (Some e), Log ERROR (''Error committing session: '' @ exc_str e),
                   Call Rollback (Some e2)],
                  Raise e2))
          else ([Call Commit (Some e)], Raise e))"

text \<open>Lines 24 to 39: the body of the outer \<open>try\<close>.\<close>

definition try_body :: "session_env \<Rightarrow> pyexc option \<Rightarrow> event list \<times> unit result" where
  "try_body db exc =
     (case exc of
        Some x \<Rightarrow>
          ([Log ERROR (''Rolling back due to error: '' @ cls_name x @ '': '' @ exc_str x),
            Call Rollback (rollback_res db)],
           (case rollback_res db of None \<Rightarrow> Return () | Some e \<Rightarrow> Raise e))
      | None \<Rightarrow> commit_block db)"

text \<open>Lines 40 to 49: the handler \<open>except Exception as e\<close> of the outer \<open>try\<close>.\<close>

definition except_handler :: "event list \<times> unit result \<Rightarrow> event list \<times> unit result" where
  "except_handler r =
     (case snd r of
        Return v \<Rightarrow> r
      | Raise e \<Rightarrow>
          if is_Exception e then
            (if str_in ''asyncio.CancelledError'' (class_str e)
             then (fst r @ [Log INFO ''Session cleanup cancelled - this is normal during shutdown''],
                   Return ())
             else (fst r @ [Log ERROR (''Error during session cleanup: '' @ exc_str e)], Raise e))
          else r)"

text \<open>Lines 50 to 56: the \<open>finally\<close> clause.\<close>

definition finally_close :: "session_env \<Rightarrow> event list \<times> unit result \<Rightarrow> event list \<times> unit result" where
  "finally_close db r =
     (case close_res db of
        None \<Rightarrow> (fst r @ [Call Close None, Log DEBUG ''UoW __aexit__: Session closed''], snd r)
      | Some c \<Rightarrow>
          if is_Exception c
          then (fst r @ [Call Close (Some c), Log ERROR (''Error closing session: '' @ exc_str c)],
                snd r)
          else (fst r @ [Call Close (Some c)], Raise c))"

definition aexit :: "uow \<Rightarrow> session_env \<Rightarrow> pyexc option \<Rightarrow> event list \<times> unit result" where
  "aexit u db exc =
     (case sql_model_session u of
        Unset \<Rightarrow>
          ([], Raise (AttributeError
                 (CHR 0x27 # ''UoW'' @ [CHR 0x27] @ '' object has no attribute '' @
                  [CHR 0x27] @ ''_UoW__sql_model_session'' @ [CHR 0x27])))
      | PyNone \<Rightarrow> ([], Return ())
      | Sess s \<Rightarrow> finally_close db (except_handler (try_body db exc)))"

text \<open>
  What the caller of \<open>async with uow: ...\<close> observes once \<open>__aexit__\<close> is over: the
  exception \<open>__aexit__\<close> raised, otherwise (it returned \<open>None\<close>) the exception of the
  body if there was one.
\<close>

definition observed :: "pyexc option \<Rightarrow> unit result \<Rightarrow> unit result" where
  "observed exc r =
     (case r of
        Raise e \<Rightarrow> Raise e
      | Return v \<Rightarrow> (case exc of None \<Rightarrow> Return () | Some x \<Rightarrow> Raise x))"

section \<open>The lifespan of the application\<close>

text \<open>
  The startup loop of \<open>lifespan_context\<close>. The database client answers the calls of
  \<open>create_engine\<close> one after the other: \<open>envs 0\<close> is its answer to the first call.
  The loop has no bound, so the model takes fuel, one unit for each call of
  \<open>create_engine\<close>; \<open>None\<close> says that the loop is still running when the fuel is used up.
\<close>

fun startup :: "nat \<Rightarrow> (nat \<Rightarrow> create_env) \<Rightarrow> adapter \<Rightarrow> (event list \<times> adapter \<times> unit result) option" where
  "startup 0 envs a = None"
| "startup (Suc fuel) envs a =
     (case create_engine a (envs 0) of
        (tr, a', r) \<Rightarrow>
          (case r of
             Return v \<Rightarrow> Some (tr, a', Return ())
           | Raise e \<Rightarrow>
               if is_Exception e then
                 (case startup fuel (\<lambda>j. envs (Suc j)) a' of
                    None \<Rightarrow> None
                  | Some (tr2, a2, r2) \<Rightarrow>
                      Some (tr @
                            [Log ERROR (''Unable to connect to DB - Retrying... Error: '' @ exc_str e),
                             Sleep 3] @ tr2,
                            a2, r2))
               else Some (tr, a', Raise e)))"

text \<open>The part of \<open>lifespan_context\<close> after the \<open>yield\<close>.\<close>

definition shutdown :: "adapter \<Rightarrow> pyexc option \<Rightarrow> event list \<times> adapter \<times> unit result" where
  "shutdown a dispose_res =
     (case dispose_engine a dispose_res of
        (tr, a', r) \<Rightarrow>
          (Log INFO ''Application shutting down. Waiting for background tasks to complete...'' # tr,
           a', r))"

section \<open>Reading a run\<close>

text \<open>
  The state of the adapter before the \<open>j\<close>-th call of \<open>create_engine\<close> in a sequence of
  calls, and that call.
\<close>

fun adapter_at :: "(nat \<Rightarrow> create_env) \<Rightarrow> adapter \<Rightarrow> nat \<Rightarrow> adapter" where
  "adapter_at envs a 0 = a"
| "adapter_at envs a (Suc j) = adapter_at (\<lambda>i. envs (Suc i)) (fst (snd (create_engine a (envs 0)))) j"

definition attempt :: "(nat \<Rightarrow> create_env) \<Rightarrow> adapter \<Rightarrow> nat \<Rightarrow> event list \<times> adapter \<times> unit result" where
  "attempt envs a j = create_engine (adapter_at envs a j) (envs j)"

fun is_call :: "op \<Rightarrow> event \<Rightarrow> bool" where
  "is_call p (Call q r) = (p = q)"
| "is_call p (Log l m) = False"
| "is_call p (CreateAsyncEngine r) = False"
| "is_call p (ConnectionCheck r) = False"
| "is_call p (Dispose r) = False"
| "is_call p (Sleep n) = False"

text \<open>How often a session method was called, and how often it was called and returned.\<close>

definition attempts :: "op \<Rightarrow> event list \<Rightarrow> nat" where
  "attempts p tr = length (filter (is_call p) tr)"

definition completed :: "op \<Rightarrow> event list \<Rightarrow> nat" where
  "completed p tr = count_list tr (Call p None)"


fun is_error_log :: "event \<Rightarrow> bool" where
  "is_error_log (Log l m) = (l = ERROR)"
| "is_error_log (Call q r) = False"
| "is_error_log (CreateAsyncEngine r) = False"
| "is_error_log (ConnectionCheck r) = False"
| "is_error_log (Dispose r) = False"
| "is_error_log (Sleep n) = False"

section \<open>Concrete runs\<close>

definition ex_adapter :: adapter where
  "ex_adapter = SQLModelAdapter ''db'' ''5432'' ''user'' ''secret'' ''service'' ''backend''"

definition ex_engine :: engine where
  "ex_engine = AsyncEngine ''postgresql+asyncpg://user:secret@db:5432/service'' ''backend''"

definition active_uow :: uow where
  "active_uow = \<lparr> sql_model_session = Sess (AsyncSession ex_engine) \<rparr>"

definition ValueError_x :: pyexc where
  "ValueError_x = PyExc ''builtins'' ''ValueError'' ''ValueError'' True ''x''"

definition OperationalError :: pyexc where
  "OperationalError =
     PyExc ''sqlalchemy.exc'' ''OperationalError'' ''OperationalError'' True ''connection lost''"

definition IntegrityError :: pyexc where
  "IntegrityError =
     PyExc ''sqlalchemy.exc'' ''IntegrityError'' ''IntegrityError'' True ''duplicate key''"

definition ConnectionRefusedError :: pyexc where
  "ConnectionRefusedError =
     PyExc ''builtins'' ''ConnectionRefusedError'' ''ConnectionRefusedError'' True
       ''Connect call failed''"

text \<open>The database is unreachable: the engine is built, the connection check raises.\<close>

definition db_unreachable :: create_env where
  "db_unreachable = \<lparr> construct_res = None, check_res = Some ConnectionRefusedError \<rparr>"

definition db_reachable :: create_env where
  "db_reachable = \<lparr> construct_res = None, check_res = None \<rparr>"

definition driver_missing :: create_env where
  "driver_missing =
     \<lparr> construct_res =
         Some (PyExc ''builtins'' ''ModuleNotFoundError'' ''ModuleNotFoundError'' True
                 ''No module named asyncpg''),
       check_res = None \<rparr>"

definition all_ok :: session_env where
  "all_ok = \<lparr> commit_res = None, rollback_res = None, close_res = None \<rparr>"

definition rollback_fails :: session_env where
  "rollback_fails = \<lparr> commit_res = None, rollback_res = Some OperationalError, close_res = None \<rparr>"

definition commit_and_rollback_fail :: session_env where
  "commit_and_rollback_fail =
     \<lparr> commit_res = Some IntegrityError, rollback_res = Some OperationalError, close_res = None \<rparr>"

definition commit_and_close_fail :: session_env where
  "commit_and_close_fail =
     \<lparr> commit_res = Some IntegrityError, rollback_res = None, close_res = Some OperationalError \<rparr>"

definition close_fails :: session_env where
  "close_fails = \<lparr> commit_res = None, rollback_res = None, close_res = Some OperationalError \<rparr>"

definition rollback_cancelled :: session_env where
  "rollback_cancelled =
     \<lparr> commit_res = None, rollback_res = Some (CancelledError []), close_res = Some OperationalError \<rparr>"

text \<open>The database is unreachable at every call of \<open>create_engine\<close>.\<close>

definition never_reachable :: "nat \<Rightarrow> create_env" where
  "never_reachable j = db_unreachable"

text \<open>
  An exception of a class nested in another one: \<open>__name__\<close> is \<open>InnerError\<close>,
  \<open>__qualname__\<close> is \<open>Outer.InnerError\<close>.
\<close>

definition InnerError :: pyexc where
  "InnerError = PyExc ''app.errors'' ''InnerError'' ''Outer.InnerError'' True ''inner''"

section \<open>Unfolding the model\<close>

lemmas exit_defs = aexit_def finally_close_def except_handler_def try_body_def commit_block_def

lemmas run_defs =
  active_uow_def ex_engine_def ex_adapter_def SQLModelAdapter_def ValueError_x_def
  OperationalError_def IntegrityError_def ConnectionRefusedError_def CancelledError_def
  db_unreachable_def db_reachable_def driver_missing_def all_ok_def
  rollback_fails_def commit_and_rollback_fail_def commit_and_close_fail_def close_fails_def
  rollback_cancelled_def never_reachable_def InnerError_def

section \<open>The adapter\<close>

lemma create_engine_quiet:
  "count_list (fst (create_engine a env)) (Sleep n) = 0 \<and>
   filter is_error_log (fst (create_engine a env)) = []"
  by (simp add: create_engine_def split: option.splits)

lemma create_engine_returns_engine:
  "snd (snd (create_engine a env)) = Return v \<Longrightarrow>
   \<exists>eng. engine (fst (snd (create_engine a env))) = Some eng"
  by (auto simp: create_engine_def split: option.splits)

lemma create_engine_idempotent:
  "engine a = Some eng \<Longrightarrow> create_engine a env = ([], a, Return ())"
  by (simp add: create_engine_def)

lemma get_session_without_engine:
  "engine a = None \<Longrightarrow>
   get_session a = Raise (RuntimeError ''Engine not initialized. Call create_engine() first'')"
  by (simp add: get_session_def)

lemma get_session_with_engine:
  "engine a = Some eng \<Longrightarrow> get_session a = Return (AsyncSession eng)"
  by (simp add: get_session_def)

lemma get_session_after_dispose:
  "snd (snd (dispose_engine a None)) = Return () \<and>
   get_session (fst (snd (dispose_engine a None))) =
     Raise (RuntimeError ''Engine not initialized. Call create_engine() first'')"
  by (simp add: dispose_engine_def get_session_def split: option.splits)

text \<open>
  C2. A call of \<open>create_engine\<close> whose connection check fails raises the error of the
  check, and the adapter is to keep no engine, so that the next call builds and checks
  again. The code assigns the engine before the check and never clears it: on a fresh
  adapter whose check is refused the error is raised and the engine stays, and the next
  call returns at once, building and checking nothing.
\<close>

theorem failed_check_keeps_engine:
  "create_engine ex_adapter db_unreachable =
     ([CreateAsyncEngine None, ConnectionCheck (Some ConnectionRefusedError)],
      ex_adapter\<lparr>engine := Some ex_engine\<rparr>, Raise ConnectionRefusedError) \<and>
   create_engine (fst (snd (create_engine ex_adapter db_unreachable))) db_reachable =
     ([], ex_adapter\<lparr>engine := Some ex_engine\<rparr>, Return ())"
  by (simp add: create_engine_def run_defs)

text \<open>
  C7. \<open>get_session\<close> raises the error of the missing engine before a successful
  \<open>create_engine\<close> and returns a session bound to the engine otherwise. The test of the
  code is the presence of the engine (the three lemmas above), and a failed
  \<open>create_engine\<close> leaves the engine behind: after one call of \<open>create_engine\<close> that
  raised, and no call that returned, \<open>get_session\<close> returns a session.
\<close>

theorem failed_create_then_get_session:
  "snd (snd (create_engine ex_adapter db_unreachable)) = Raise ConnectionRefusedError \<and>
   get_session (fst (snd (create_engine ex_adapter db_unreachable))) = Return (AsyncSession ex_engine)"
  by (simp add: create_engine_def get_session_def run_defs)

section \<open>Leaving the unit of work\<close>



lemma try_body_no_close: "attempts Close (fst (try_body db exc)) = 0"
  by (simp add: try_body_def commit_block_def attempts_def split: option.splits)

lemma except_handler_no_close: "attempts Close (fst (except_handler r)) = attempts Close (fst r)"
  by (simp add: except_handler_def attempts_def split: result.splits)

lemma finally_close_one_close: "attempts Close (fst (finally_close db r)) = attempts Close (fst r) + 1"
  by (simp add: finally_close_def attempts_def split: option.splits)






lemma close_attempted_once:
  "sql_model_session u = Sess s \<Longrightarrow> attempts Close (fst (aexit u db exc)) = 1"
  by (simp add: aexit_def finally_close_one_close except_handler_no_close try_body_no_close)

lemma one_decision:
  "sql_model_session u = Sess s \<Longrightarrow> rollback_res db = None \<Longrightarrow>
   (\<forall>e. commit_res db = Some e \<longrightarrow> is_Exception e) \<Longrightarrow>
   completed Commit (fst (aexit u db exc)) + completed Rollback (fst (aexit u db exc)) = 1"
  by (auto simp: exit_defs completed_def split: option.splits)

text \<open>
  An exit with the upstream error \<open>ValueError('x')\<close> whose rollback raises: the rollback
  is called once and does not complete, no commit is called, so neither of the two
  completes; the error of the rollback is raised again by the handler.
\<close>

theorem failed_rollback_no_decision:
  "completed Commit (fst (aexit active_uow rollback_fails (Some ValueError_x))) = 0 \<and>
   completed Rollback (fst (aexit active_uow rollback_fails (Some ValueError_x))) = 0 \<and>
   attempts Rollback (fst (aexit active_uow rollback_fails (Some ValueError_x))) = 1 \<and>
   attempts Commit (fst (aexit active_uow rollback_fails (Some ValueError_x))) = 0"
  by (simp add: run_defs exit_defs attempts_def completed_def class_str_def)

text \<open>
  C1, amended. On every exit of a unit of work that holds a session, \<open>close\<close> is called
  exactly once, whether the body succeeded, raised or was cancelled. Where the rollback,
  if it is called, returns, and the commit, if it fails, fails with an \<open>Exception\<close>,
  exactly one of commit and rollback completes.
\<close>

theorem exit_one_decision_one_close:
  "sql_model_session u = Sess s \<Longrightarrow>
   attempts Close (fst (aexit u db exc)) = 1 \<and>
   (rollback_res db = None \<and> (\<forall>e. commit_res db = Some e \<longrightarrow> is_Exception e) \<longrightarrow>
      completed Commit (fst (aexit u db exc)) + completed Rollback (fst (aexit u db exc)) = 1)"
  using close_attempted_once one_decision by blast

theorem exit_one_decision_one_close_witness:
  "attempts Close (fst (aexit active_uow commit_and_close_fail None)) = 1 \<and>
   completed Commit (fst (aexit active_uow commit_and_close_fail None)) = 0 \<and>
   completed Rollback (fst (aexit active_uow commit_and_close_fail None)) = 1"
  using exit_one_decision_one_close [of active_uow "AsyncSession ex_engine" commit_and_close_fail None]
  by (simp add: run_defs exit_defs attempts_def completed_def)

text \<open>
  An exit with the upstream error \<open>ValueError('x')\<close> whose rollback raises: the caller
  observes the error of the rollback.
\<close>

theorem rollback_error_replaces_upstream:
  "observed (Some ValueError_x) (snd (aexit active_uow rollback_fails (Some ValueError_x))) =
     Raise OperationalError \<and> OperationalError \<noteq> ValueError_x"
  by (simp add: run_defs exit_defs observed_def class_str_def)

text \<open>
  C3, amended. On every exit of a unit of work that holds a session, with an upstream
  error, where the rollback returns and \<open>close\<close> raises nothing but an \<open>Exception\<close>: the
  rollback is the one decision (no commit is called), \<open>__aexit__\<close> returns, and the caller
  observes the upstream error itself.
\<close>

theorem upstream_error_passes:
  "sql_model_session u = Sess s \<Longrightarrow> rollback_res db = None \<Longrightarrow>
   (\<forall>c. close_res db = Some c \<longrightarrow> is_Exception c) \<Longrightarrow>
   completed Rollback (fst (aexit u db (Some x))) = 1 \<and>
   attempts Commit (fst (aexit u db (Some x))) = 0 \<and>
   snd (aexit u db (Some x)) = Return () \<and>
   observed (Some x) (snd (aexit u db (Some x))) = Raise x"
  by (auto simp: exit_defs completed_def attempts_def observed_def split: option.splits)

theorem upstream_error_passes_witness:
  "completed Rollback (fst (aexit active_uow close_fails (Some ValueError_x))) = 1 \<and>
   observed (Some ValueError_x) (snd (aexit active_uow close_fails (Some ValueError_x))) = Raise ValueError_x"
  using upstream_error_passes [of active_uow "AsyncSession ex_engine" close_fails ValueError_x]
  by (simp add: run_defs observed_def)

text \<open>
  An exit without upstream error whose commit and rollback both raise: the error of the
  rollback is raised, not the one of the commit.
\<close>

theorem rollback_error_replaces_commit_error:
  "snd (aexit active_uow commit_and_rollback_fail None) = Raise OperationalError \<and>
   OperationalError \<noteq> IntegrityError"
  by (simp add: run_defs exit_defs class_str_def)

text \<open>
  C4, amended. On every exit of a unit of work that holds a session, without upstream
  error, where the commit raises an \<open>Exception\<close> whose class does not print with
  \<open>asyncio.CancelledError\<close> in it, the rollback returns and \<open>close\<close> raises nothing but an
  \<open>Exception\<close>: the transaction is rolled back and the error of the commit itself is
  raised to the caller.
\<close>

theorem commit_failure_raised:
  "sql_model_session u = Sess s \<Longrightarrow> commit_res db = Some e \<Longrightarrow> is_Exception e \<Longrightarrow>
   \<not> str_in ''asyncio.CancelledError'' (class_str e) \<Longrightarrow> rollback_res db = None \<Longrightarrow>
   (\<forall>c. close_res db = Some c \<longrightarrow> is_Exception c) \<Longrightarrow>
   completed Commit (fst (aexit u db None)) = 0 \<and>
   completed Rollback (fst (aexit u db None)) = 1 \<and>
   snd (aexit u db None) = Raise e \<and>
   observed None (snd (aexit u db None)) = Raise e"
  by (auto simp: exit_defs completed_def observed_def split: option.splits)

theorem commit_failure_raised_witness:
  "snd (aexit active_uow commit_and_close_fail None) = Raise IntegrityError \<and>
   completed Rollback (fst (aexit active_uow commit_and_close_fail None)) = 1"
  using commit_failure_raised [of active_uow "AsyncSession ex_engine" commit_and_close_fail IntegrityError]
  by (simp add: run_defs class_str_def)

text \<open>
  C5. On every exit of a unit of work that holds a session, a failure of \<open>close\<close> (an
  \<open>Exception\<close>) is logged as an error and not raised: \<open>__aexit__\<close> ends as it would have
  with a \<open>close\<close> that returned. After a commit that returned the caller observes success;
  after a rollback that returned the caller observes the upstream error.
\<close>

theorem close_failure_logged_not_raised:
  "sql_model_session u = Sess s \<Longrightarrow> close_res db = Some c \<Longrightarrow> is_Exception c \<Longrightarrow>
   Log ERROR (''Error closing session: '' @ exc_str c) \<in> set (fst (aexit u db exc)) \<and>
   snd (aexit u db exc) = snd (aexit u (db\<lparr>close_res := None\<rparr>) exc) \<and>
   (exc = None \<and> commit_res db = None \<longrightarrow> observed exc (snd (aexit u db exc)) = Return ()) \<and>
   (rollback_res db = None \<longrightarrow> (\<forall>x. exc = Some x \<longrightarrow> observed exc (snd (aexit u db exc)) = Raise x))"
  by (auto simp: exit_defs observed_def split: option.splits)

theorem close_failure_logged_not_raised_witness:
  "Log ERROR ''Error closing session: connection lost'' \<in> set (fst (aexit active_uow close_fails None)) \<and>
   snd (aexit active_uow close_fails None) = Return ()"
  using close_failure_logged_not_raised [of active_uow "AsyncSession ex_engine" close_fails OperationalError None]
  by (simp add: run_defs exit_defs)

text \<open>
  C6. On every exit of a unit of work that holds a session, if a call of \<open>rollback\<close>,
  \<open>commit\<close> or \<open>close\<close> made during the exit raises a cancellation (an exception that is
  no \<open>Exception\<close>, as \<open>asyncio.CancelledError\<close>), then \<open>__aexit__\<close> raises a cancellation:
  that one, unless \<open>close\<close> raised one after it.
\<close>

theorem cancellation_propagates:
  "sql_model_session u = Sess s \<Longrightarrow> Call p (Some x) \<in> set (fst (aexit u db exc)) \<Longrightarrow>
   \<not> is_Exception x \<Longrightarrow>
   \<exists>y. snd (aexit u db exc) = Raise y \<and> \<not> is_Exception y \<and> (y = x \<or> close_res db = Some y)"
  by (auto simp: exit_defs split: option.splits if_splits)

theorem cancellation_propagates_witness:
  "Call Rollback (Some (CancelledError [])) \<in> set (fst (aexit active_uow rollback_cancelled (Some ValueError_x))) \<and>
   snd (aexit active_uow rollback_cancelled (Some ValueError_x)) = Raise (CancelledError [])"
  using cancellation_propagates [of active_uow "AsyncSession ex_engine" Rollback "CancelledError []" rollback_cancelled "Some ValueError_x"]
  by (simp add: run_defs exit_defs)

text \<open>
  The branch of the handler that logs \<open>Session cleanup cancelled\<close> is taken by an
  \<open>Exception\<close> only, one whose class prints with \<open>asyncio.CancelledError\<close> in it; such an
  exception is not raised again. The class of \<open>asyncio.CancelledError\<close> itself prints as
  \<open>asyncio.exceptions.CancelledError\<close>.
\<close>

lemma named_like_cancellation_not_raised:
  "sql_model_session u = Sess s \<Longrightarrow> rollback_res db = Some e \<Longrightarrow> is_Exception e \<Longrightarrow>
   str_in ''asyncio.CancelledError'' (class_str e) \<Longrightarrow>
   (\<forall>c. close_res db = Some c \<longrightarrow> is_Exception c) \<Longrightarrow>
   snd (aexit u db (Some x)) = Return ()"
  by (auto simp: exit_defs split: option.splits)

lemma CancelledError_class_str:
  "class_str (CancelledError m) = ''<class '' @ [CHR 0x27] @ ''asyncio.exceptions.CancelledError'' @ [CHR 0x27] @ ''>'' \<and>
   str_in ''asyncio.CancelledError'' (class_str (CancelledError m)) = False"
  by (simp add: class_str_def CancelledError_def)

lemma exit_without_session_does_nothing:
  "sql_model_session u = PyNone \<Longrightarrow> aexit u db exc = ([], Return ())"
  by (simp add: aexit_def)

text \<open>
  C9. An exit of a unit of work that holds no session is to do nothing and raise nothing,
  also when the entry never ran or did not succeed. \<open>__init__\<close> does not assign the
  attribute of the session, and an entry that fails leaves it unassigned: on an instance
  whose entry failed (the adapter has no engine), as on a new instance, \<open>__aexit__\<close> raises
  \<open>AttributeError\<close> when it reads the attribute.
\<close>

theorem exit_without_entry_raises:
  "snd (snd (aenter ex_adapter UoW)) = Raise (RuntimeError ''Engine not initialized. Call create_engine() first'') \<and>
   aexit (fst (snd (aenter ex_adapter UoW))) db exc =
     ([], Raise (AttributeError
            (CHR 0x27 # ''UoW'' @ [CHR 0x27] @ '' object has no attribute '' @
             [CHR 0x27] @ ''_UoW__sql_model_session'' @ [CHR 0x27]))) \<and>
   aexit UoW db exc = aexit (fst (snd (aenter ex_adapter UoW))) db exc"
  by (simp add: aenter_def get_session_def aexit_def UoW_def run_defs)



text \<open>
  The whole scope on a created engine: entry, a body that succeeds, exit; the session is
  committed and closed.
\<close>

lemma scope_commits_and_closes:
  "aenter (ex_adapter\<lparr>engine := Some ex_engine\<rparr>) UoW =
     ([Log DEBUG ''UoW __aenter__: Creating new session'',
       Log DEBUG ''UoW __aenter__: Session created''], active_uow, Return ()) \<and>
   aexit active_uow all_ok None =
     ([Call Commit None, Log DEBUG ''UoW __aexit__: Session committed successfully'',
       Call Close None, Log DEBUG ''UoW __aexit__: Session closed''], Return ())"
  by (simp add: aenter_def get_session_def UoW_def run_defs exit_defs)

section \<open>Startup and shutdown\<close>

lemma shutdown_clears_engine:
  "shutdown (ex_adapter\<lparr>engine := Some ex_engine\<rparr>) None =
     ([Log INFO ''Application shutting down. Waiting for background tasks to complete...'',
       Dispose None], ex_adapter, Return ()) \<and>
   snd (snd (shutdown ex_adapter None)) = Return ()"
  by (simp add: shutdown_def dispose_engine_def run_defs)

lemma attempt_0: "attempt envs a 0 = create_engine a (envs 0)"
  by (simp add: attempt_def)

lemma attempt_Suc:
  "attempt envs a (Suc j) = attempt (\<lambda>i. envs (Suc i)) (fst (snd (create_engine a (envs 0)))) j"
  by (simp add: attempt_def)

lemma startup_run:
  "(\<forall>j<k. \<exists>e. snd (snd (attempt envs a j)) = Raise e \<and> is_Exception e) \<Longrightarrow>
   snd (snd (attempt envs a k)) = Return () \<Longrightarrow>
   (fuel \<le> k \<longrightarrow> startup fuel envs a = None) \<and>
   (k < fuel \<longrightarrow>
      (\<exists>tr. startup fuel envs a = Some (tr, fst (snd (attempt envs a k)), Return ()) \<and>
            count_list tr (Sleep 3) = k \<and> length (filter is_error_log tr) = k))"
proof (induction k arbitrary: envs a fuel)
  case 0
  show ?case
  proof (cases fuel)
    case 0
    then show ?thesis by simp
  next
    case (Suc f)
    obtain tr a' r where c: "create_engine a (envs 0) = (tr, a', r)"
      by (cases "create_engine a (envs 0)") auto
    from "0.prems"(2) c have r: "r = Return ()" by (simp add: attempt_0)
    from create_engine_quiet [of a "envs 0" 3] c
    have q: "count_list tr (Sleep 3) = 0" "filter is_error_log tr = []" by simp_all
    show ?thesis using Suc c r q by (simp add: attempt_0)
  qed
next
  case (Suc k)
  obtain tr a' r where c: "create_engine a (envs 0) = (tr, a', r)"
    by (cases "create_engine a (envs 0)") auto
  from Suc.prems(1) have "\<exists>e. snd (snd (attempt envs a 0)) = Raise e \<and> is_Exception e"
    by blast
  then obtain e where e: "r = Raise e" "is_Exception e" using c by (auto simp: attempt_0)
  from create_engine_quiet [of a "envs 0" 3] c
  have q: "count_list tr (Sleep 3) = 0" "filter is_error_log tr = []" by simp_all
  have p1: "\<forall>j<k. \<exists>e. snd (snd (attempt (\<lambda>i. envs (Suc i)) a' j)) = Raise e \<and> is_Exception e"
  proof (intro allI impI)
    fix j assume "j < k"
    then have "Suc j < Suc k" by simp
    with Suc.prems(1) have "\<exists>e. snd (snd (attempt envs a (Suc j))) = Raise e \<and> is_Exception e"
      by blast
    then show "\<exists>e. snd (snd (attempt (\<lambda>i. envs (Suc i)) a' j)) = Raise e \<and> is_Exception e"
      using c by (simp add: attempt_Suc)
  qed
  have p2: "snd (snd (attempt (\<lambda>i. envs (Suc i)) a' k)) = Return ()"
    using Suc.prems(2) c by (simp add: attempt_Suc)
  have fin: "fst (snd (attempt envs a (Suc k))) = fst (snd (attempt (\<lambda>i. envs (Suc i)) a' k))"
    using c by (simp add: attempt_Suc)
  show ?case
  proof (cases fuel)
    case 0
    then show ?thesis by simp
  next
    case (Suc f)
    note ih = Suc.IH [OF p1 p2, of f]
    show ?thesis
    proof (cases "f \<le> k")
      case True
      with ih have "startup f (\<lambda>i. envs (Suc i)) a' = None" by simp
      then show ?thesis using Suc True c e by simp
    next
      case False
      with ih obtain tr2 where
        t: "startup f (\<lambda>i. envs (Suc i)) a' =
              Some (tr2, fst (snd (attempt (\<lambda>i. envs (Suc i)) a' k)), Return ())"
           "count_list tr2 (Sleep 3) = k" "length (filter is_error_log tr2) = k"
        by auto
      show ?thesis using Suc False c e q t fin by simp
    qed
  qed
qed

text \<open>
  The loop as it is written: where the first \<open>k\<close> calls of \<open>create_engine\<close> raise an
  \<open>Exception\<close> and the next call returns, the loop is still running as long as only \<open>k\<close>
  calls have been made, and once the call after them is made it ends, having logged \<open>k\<close>
  errors and slept \<open>k\<close> times three seconds, with an adapter that has an engine.
\<close>

lemma startup_ends_when_create_returns:
  "(\<forall>j<k. \<exists>e. snd (snd (attempt envs a j)) = Raise e \<and> is_Exception e) \<Longrightarrow>
   snd (snd (attempt envs a k)) = Return () \<Longrightarrow>
   (fuel \<le> k \<longrightarrow> startup fuel envs a = None) \<and>
   (k < fuel \<longrightarrow>
      (\<exists>tr eng. startup fuel envs a = Some (tr, fst (snd (attempt envs a k)), Return ()) \<and>
            count_list tr (Sleep 3) = k \<and> length (filter is_error_log tr) = k \<and>
            engine (fst (snd (attempt envs a k))) = Some eng \<and>
            get_session (fst (snd (attempt envs a k))) = Return (AsyncSession eng)))"
proof -
  assume a1: "\<forall>j<k. \<exists>e. snd (snd (attempt envs a j)) = Raise e \<and> is_Exception e"
    and a2: "snd (snd (attempt envs a k)) = Return ()"
  from a2 obtain eng where eng: "engine (fst (snd (attempt envs a k))) = Some eng"
    using create_engine_returns_engine [of "adapter_at envs a k" "envs k" "()"]
    by (auto simp: attempt_def)
  then have "get_session (fst (snd (attempt envs a k))) = Return (AsyncSession eng)"
    by (simp add: get_session_def)
  with eng startup_run [OF a1 a2, of fuel] show ?thesis by auto
qed

text \<open>
  After a connection check that failed, the next call of \<open>create_engine\<close> returns whatever
  the database answers, so the loop ends at the second call: one error logged, one sleep,
  and no connection check that succeeded.
\<close>

lemma startup_after_failed_check:
  "engine a = None \<Longrightarrow> construct_res (envs 0) = None \<Longrightarrow> check_res (envs 0) = Some e \<Longrightarrow>
   is_Exception e \<Longrightarrow>
   startup (Suc (Suc n)) envs a =
     Some ([CreateAsyncEngine None, ConnectionCheck (Some e),
            Log ERROR (''Unable to connect to DB - Retrying... Error: '' @ exc_str e), Sleep 3],
           a\<lparr>engine := Some (AsyncEngine (database_url a) (application_name a))\<rparr>, Return ())"
  by (simp add: create_engine_def)

text \<open>
  C8. When \<open>create_engine\<close> fails with a connectivity error, the startup is to log the
  failure, wait and retry, and not to complete before a call of \<open>create_engine\<close> has
  succeeded and left a usable pool. With a database that is unreachable at every call, the
  code logs and sleeps once, and its second call of \<open>create_engine\<close> returns at once
  because the engine of the failed call was kept: the startup completes after two calls,
  no connection check has succeeded, and \<open>get_session\<close> hands out a session on the engine
  that never reached the database.
\<close>

theorem startup_completes_while_unreachable:
  "startup 1 never_reachable ex_adapter = None \<and>
   startup 2 never_reachable ex_adapter =
     Some ([CreateAsyncEngine None, ConnectionCheck (Some ConnectionRefusedError),
            Log ERROR ''Unable to connect to DB - Retrying... Error: Connect call failed'', Sleep 3],
           ex_adapter\<lparr>engine := Some ex_engine\<rparr>, Return ()) \<and>
   count_list (fst (the (startup 2 never_reachable ex_adapter))) (ConnectionCheck None) = 0 \<and>
   get_session (fst (snd (the (startup 2 never_reachable ex_adapter)))) = Return (AsyncSession ex_engine)"
  by (simp add: numeral_2_eq_2 create_engine_def get_session_def run_defs)

text \<open>
  The log record of the rollback names the class by \<open>__name__\<close>, not by its qualified
  name.
\<close>

lemma rollback_log_uses_name:
  "hd (fst (aexit active_uow all_ok (Some InnerError))) =
     Log ERROR ''Rolling back due to error: InnerError: inner''"
  by (simp add: run_defs exit_defs)

text \<open>
  As long as the construction of the engine raises an \<open>Exception\<close>, the loop goes on.
\<close>

lemma startup_may_run_forever:
  "engine a = None \<Longrightarrow> startup fuel (\<lambda>j. driver_missing) a = None"
  by (induction fuel) (simp_all add: create_engine_def driver_missing_def)

end
